theory Spec2Isabelle
  imports Complex_Main
begin

section \<open>Data model (types.ts)\<close>

text \<open>
  The interfaces of \<^verbatim>\<open>types.ts\<close> become records. A field name shared by several
  interfaces (\<^verbatim>\<open>id\<close>, \<^verbatim>\<open>name\<close>, \<^verbatim>\<open>sku\<close>, \<^verbatim>\<open>warehouseId\<close>) or clashing with a
  HOL name (\<^verbatim>\<open>id\<close>, \<^verbatim>\<open>type\<close>) carries a suffix naming its interface. An interface
  minus its \<^verbatim>\<open>id\<close> (\<^verbatim>\<open>Omit<Product, 'id'>\<close>) is the parent record; the full interface
  extends it with the id. An optional field (\<^verbatim>\<open>password?\<close>, \<^verbatim>\<open>transactionId?\<close>) is an
  option.

  A JavaScript \<^verbatim>\<open>number\<close> holding a stock quantity is modelled as an unbounded
  \<^typ>\<open>int\<close> (the forms read quantities with \<^verbatim>\<open>parseInt\<close>); a price as a \<^typ>\<open>rat\<close>.
  A string is a \<^typ>\<open>string\<close>; a character outside ASCII is written as its UTF-8 bytes.
\<close>

record WarehouseData =
  name_w :: string
  location :: string

record Warehouse = WarehouseData +
  id_w :: string

record ProductData =
  name_p :: string
  sku_p :: string
  category :: string
  price :: rat
  lowStockThreshold :: int
  description :: string
  images :: "string list"

record Product = ProductData +
  id_p :: string

record InventoryItem =
  productId :: string
  warehouseId :: string
  quantity :: int

text \<open>The string union \<^verbatim>\<open>LogType\<close>; its fourth member, \<^verbatim>\<open>'CREACION'\<close> with an acute
  accent on the O in the source, is written without the accent.\<close>

datatype LogType = ENTRADA | SALIDA | AJUSTE | CREACION

record LogEntry =
  id_l :: string
  timestamp :: string
  productName :: string
  sku :: string
  warehouseName :: string
  type_l :: LogType
  quantityChange :: int
  newQuantityInWarehouse :: int
  details :: string
  user :: string
  transactionId :: "string option"

datatype UserRole = ADMINISTRADOR | GERENTE | EMPLEADO

record UserData =
  name_u :: string
  email :: string
  role :: UserRole
  password :: "string option"

record User = UserData +
  id_u :: string

record UserWarehouseAccess =
  userId :: string
  warehouseId_a :: string

datatype PurchaseOrderStatus = BORRADOR | EMITIDA | RECIBIDA | CANCELADA

section \<open>Mock data (services/mockData.ts)\<close>

text \<open>
  The timestamps of the mock log are computed when the module is loaded, as
  \<^verbatim>\<open>new Date(Date.now() - ms).toISOString()\<close>; the parameter \<open>isoAgo\<close> gives that
  string for each \<open>ms\<close>.
\<close>

definition mockWarehouses :: "Warehouse list" where
  "mockWarehouses = [
    \<lparr>name_w = ''Almac'' @ [CHR 0xC3, CHR 0xA9] @ ''n Principal'',
      location = ''150141 - AV LOS GERANIOS 321'',
      id_w = ''w1''\<rparr>,
    \<lparr>name_w = ''Bodega Norte'',
      location = ''Ciudad Capital, Sector Norte'',
      id_w = ''w2''\<rparr>,
    \<lparr>name_w = ''Punto de Venta Central'',
      location = ''150140 - AV. CAMINOS DEL INCA NRO. 3140 DPTO. 401 URB. PROLONGACION BENAVIDES - LIMA LIMA SANTIAGO DE SURCO'',
      id_w = ''w3''\<rparr>]"

definition mockProducts :: "Product list" where
  "mockProducts = [
    \<lparr>name_p = ''Taladro Inal'' @ [CHR 0xC3, CHR 0xA1] @ ''mbrico 20V'',
      sku_p = ''TLD-20V-001'',
      category = ''Herramientas El'' @ [CHR 0xC3, CHR 0xA9] @ ''tricas'',
      price = 12999 / 100,
      lowStockThreshold = 10,
      description = ''Potente taladro inal'' @ [CHR 0xC3, CHR 0xA1] @ ''mbrico de 20V con bater'' @ [CHR 0xC3, CHR 0xAD] @ ''a de litio de larga duraci'' @ [CHR 0xC3, CHR 0xB3] @ ''n. Ideal para trabajos de perforaci'' @ [CHR 0xC3, CHR 0xB3] @ ''n en madera, metal y pl'' @ [CHR 0xC3, CHR 0xA1] @ ''stico.'',
      images = [''https://via.placeholder.com/600x400.png/2d3748/ffffff?text=Taladro''],
      id_p = ''p1''\<rparr>,
    \<lparr>name_p = ''Juego de 100 Brocas'',
      sku_p = ''BRC-100-002'',
      category = ''Accesorios'',
      price = 4999 / 100,
      lowStockThreshold = 15,
      description = ''Set completo de 100 brocas de titanio de alta velocidad para m'' @ [CHR 0xC3, CHR 0xBA] @ ''ltiples materiales. Incluye estuche organizador.'',
      images = [''https://via.placeholder.com/600x400.png/2d3748/ffffff?text=Brocas''],
      id_p = ''p2''\<rparr>,
    \<lparr>name_p = ''Martillo de Carpintero'',
      sku_p = ''MTC-CF-003'',
      category = ''Herramientas Manuales'',
      price = 49 / 2,
      lowStockThreshold = 20,
      description = ''Martillo de carpintero con cabeza de acero forjado y mango de fibra de vidrio para una absorci'' @ [CHR 0xC3, CHR 0xB3] @ ''n '' @ [CHR 0xC3, CHR 0xB3] @ ''ptima de impactos.'',
      images = [''https://via.placeholder.com/600x400.png/2d3748/ffffff?text=Martillo''],
      id_p = ''p3''\<rparr>,
    \<lparr>name_p = ''Caja de Herramientas Met'' @ [CHR 0xC3, CHR 0xA1] @ ''lica'',
      sku_p = ''CJA-MTL-004'',
      category = ''Almacenamiento'',
      price = 75,
      lowStockThreshold = 5,
      description = ''Caja de herramientas met'' @ [CHR 0xC3, CHR 0xA1] @ ''lica de 5 compartimentos, resistente y con amplio espacio para organizar todas tus herramientas.'',
      images = [''https://via.placeholder.com/600x400.png/2d3748/ffffff?text=Caja''],
      id_p = ''p4''\<rparr>,
    \<lparr>name_p = ''Guantes de Seguridad (Par)'',
      sku_p = ''GNT-SEG-005'',
      category = ''Seguridad'',
      price = 999 / 100,
      lowStockThreshold = 50,
      description = ''Par de guantes de seguridad recubiertos de nitrilo para un mejor agarre y protecci'' @ [CHR 0xC3, CHR 0xB3] @ ''n contra cortes y abrasiones.'',
      images = [''https://via.placeholder.com/600x400.png/2d3748/ffffff?text=Guantes''],
      id_p = ''p5''\<rparr>,
    \<lparr>name_p = ''COCA COLA 500ML X12'',
      sku_p = ''CF_600/04'',
      category = ''Bebidas'',
      price = 15,
      lowStockThreshold = 20,
      description = ''Paquete de 12 botellas de Coca Cola de 500ml.'',
      images = [],
      id_p = ''p6''\<rparr>]"

definition mockInventory :: "InventoryItem list" where
  "mockInventory = [
    \<lparr>productId = ''p1'', warehouseId = ''w1'', quantity = 25\<rparr>,
    \<lparr>productId = ''p1'', warehouseId = ''w2'', quantity = 12\<rparr>,
    \<lparr>productId = ''p2'', warehouseId = ''w1'', quantity = 8\<rparr>,
    \<lparr>productId = ''p3'', warehouseId = ''w1'', quantity = 80\<rparr>,
    \<lparr>productId = ''p3'', warehouseId = ''w2'', quantity = 32\<rparr>,
    \<lparr>productId = ''p3'', warehouseId = ''w3'', quantity = 15\<rparr>,
    \<lparr>productId = ''p4'', warehouseId = ''w2'', quantity = 0\<rparr>,
    \<lparr>productId = ''p5'', warehouseId = ''w1'', quantity = 150\<rparr>,
    \<lparr>productId = ''p5'', warehouseId = ''w2'', quantity = 100\<rparr>,
    \<lparr>productId = ''p6'', warehouseId = ''w1'', quantity = 50\<rparr>]"

definition mockLogs :: "(int \<Rightarrow> string) \<Rightarrow> LogEntry list" where
  "mockLogs isoAgo = [
    \<lparr>id_l = ''l4'',
      timestamp = isoAgo (30 * 60 * 1000),
      productName = ''Taladro Inal'' @ [CHR 0xC3, CHR 0xA1] @ ''mbrico 20V'',
      sku = ''TLD-20V-001'',
      warehouseName = ''Almac'' @ [CHR 0xC3, CHR 0xA9] @ ''n Principal'',
      type_l = SALIDA,
      quantityChange = -5,
      newQuantityInWarehouse = 25,
      details = ''Venta a cliente #C-2024-01'',
      user = ''Empleado Mostrador'',
      transactionId = None\<rparr>,
    \<lparr>id_l = ''l1'',
      timestamp = isoAgo (2 * 60 * 60 * 1000),
      productName = ''Taladro Inal'' @ [CHR 0xC3, CHR 0xA1] @ ''mbrico 20V'',
      sku = ''TLD-20V-001'',
      warehouseName = ''Almac'' @ [CHR 0xC3, CHR 0xA9] @ ''n Principal'',
      type_l = ENTRADA,
      quantityChange = 30,
      newQuantityInWarehouse = 30,
      details = ''Recepci'' @ [CHR 0xC3, CHR 0xB3] @ ''n de pedido de proveedor #PO-1024'',
      user = ''Sistema'',
      transactionId = None\<rparr>,
    \<lparr>id_l = ''l2'',
      timestamp = isoAgo (1 * 60 * 60 * 1000),
      productName = ''Taladro Inal'' @ [CHR 0xC3, CHR 0xA1] @ ''mbrico 20V'',
      sku = ''TLD-20V-001'',
      warehouseName = ''Bodega Norte'',
      type_l = ENTRADA,
      quantityChange = 12,
      newQuantityInWarehouse = 12,
      details = ''Transferencia desde Almac'' @ [CHR 0xC3, CHR 0xA9] @ ''n Principal'',
      user = ''Sistema'',
      transactionId = None\<rparr>,
    \<lparr>id_l = ''l3'',
      timestamp = isoAgo (3 * 60 * 60 * 1000),
      productName = ''Guantes de Seguridad (Par)'',
      sku = ''GNT-SEG-005'',
      warehouseName = ''N/A'',
      type_l = CREACION,
      quantityChange = 0,
      newQuantityInWarehouse = 0,
      details = ''Producto nuevo a'' @ [CHR 0xC3, CHR 0xB1] @ ''adido al sistema'',
      user = ''Sistema'',
      transactionId = None\<rparr>]"

definition mockUsers :: "User list" where
  "mockUsers = [
    \<lparr>name_u = ''Admin General'',
      email = ''admin@dominio.com'',
      role = ADMINISTRADOR,
      password = Some (''adminpassword''),
      id_u = ''u1''\<rparr>,
    \<lparr>name_u = ''Gerente Bodega'',
      email = ''gerente@dominio.com'',
      role = GERENTE,
      password = Some (''gerentepassword''),
      id_u = ''u2''\<rparr>,
    \<lparr>name_u = ''Empleado Mostrador'',
      email = ''empleado@dominio.com'',
      role = EMPLEADO,
      password = Some (''empleadopassword''),
      id_u = ''u3''\<rparr>,
    \<lparr>name_u = ''JAYCO SOCIEDAD ANONIMA CERRADA'',
      email = ''cliente@jayco.com'',
      role = EMPLEADO,
      password = Some (''clientepassword''),
      id_u = ''u4''\<rparr>]"

definition mockUserWarehouseAccess :: "UserWarehouseAccess list" where
  "mockUserWarehouseAccess = [
    \<lparr>userId = ''u2'', warehouseId_a = ''w1''\<rparr>,
    \<lparr>userId = ''u2'', warehouseId_a = ''w2''\<rparr>,
    \<lparr>userId = ''u3'', warehouseId_a = ''w3''\<rparr>]"

section \<open>Application state and actions (context/InventoryContext.tsx)\<close>

record AppState =
  products :: "Product list"
  warehouses :: "Warehouse list"
  inventory :: "InventoryItem list"
  logs :: "LogEntry list"
  users :: "User list"
  userWarehouseAccess :: "UserWarehouseAccess list"
  currentUser :: User

definition initialState :: "(int \<Rightarrow> string) \<Rightarrow> AppState" where
  "initialState isoAgo =
     \<lparr>products = mockProducts,
      warehouses = mockWarehouses,
      inventory = mockInventory,
      logs = mockLogs isoAgo,
      users = mockUsers,
      userWarehouseAccess = mockUserWarehouseAccess,
      currentUser = mockUsers ! 0\<rparr>"

text \<open>
  The first ten constructors are the members of the reducer's \<^verbatim>\<open>Action\<close> union, each
  with the fields of its payload in the order of the source. The components dispatch
  further action types that the union does not list: \<^verbatim>\<open>BULK_TRANSFER_STOCK\<close>
  (\<^verbatim>\<open>BulkTransferModal.handleConfirmTransfer\<close>, payload \<^verbatim>\<open>items\<close>,
  \<^verbatim>\<open>fromWarehouseId\<close>, \<^verbatim>\<open>toWarehouseId\<close>, \<^verbatim>\<open>details\<close>), \<^verbatim>\<open>UPDATE_PURCHASE_ORDER\<close>
  (\<^verbatim>\<open>PurchaseOrdersView.handleStatusChange\<close>, payload \<^verbatim>\<open>purchaseOrderId\<close>, \<^verbatim>\<open>status\<close>,
  optional \<^verbatim>\<open>receivedInWarehouseId\<close>), and others (\<^verbatim>\<open>LOGIN\<close>, \<^verbatim>\<open>ADD_SUPPLIER\<close>, ...)
  that \<open>OTHER\<close> stands for, carrying the \<^verbatim>\<open>type\<close> string.
\<close>

datatype Action =
    ADD_PRODUCT ProductData
  | BULK_ADD_PRODUCTS "ProductData list"
  | UPDATE_PRODUCT Product
  | DELETE_PRODUCT string
  | ADJUST_STOCK string string int LogType string
  | TRANSFER_STOCK string string string int string
  | ADD_WAREHOUSE WarehouseData
  | ADD_USER UserData "string list"
  | UPDATE_USER User "string list"
  | DELETE_USER string
  | BULK_TRANSFER_STOCK "(string \<times> int) list" string string string
  | UPDATE_PURCHASE_ORDER string PurchaseOrderStatus "string option"
  | OTHER string

text \<open>
  \<^verbatim>\<open>generateUUID()\<close> draws from \<^verbatim>\<open>Math.random\<close> and \<^verbatim>\<open>new Date().toISOString()\<close> reads
  the clock. One dispatch receives them as an environment: \<open>generateUUID env k\<close> is the
  result of the \<open>k\<close>-th call of \<^verbatim>\<open>generateUUID\<close> during the dispatch (from 0), and
  \<open>toISOString env k\<close> the result of the \<open>k\<close>-th \<^verbatim>\<open>new Date().toISOString()\<close>.
\<close>

record Env =
  generateUUID :: "nat \<Rightarrow> string"
  toISOString :: "nat \<Rightarrow> string"

text \<open>\<^verbatim>\<open>Array.prototype.findIndex\<close>: the index of the first element satisfying the
  predicate, or \<open>-1\<close>. \<^verbatim>\<open>Array.prototype.find\<close> is \<^const>\<open>find\<close>, with \<open>None\<close> for
  \<^verbatim>\<open>undefined\<close>.\<close>

fun findIndex :: "('a \<Rightarrow> bool) \<Rightarrow> 'a list \<Rightarrow> int" where
  "findIndex P [] = - 1"
| "findIndex P (x # xs) =
     (if P x then 0
      else (let i = findIndex P xs in if i = - 1 then - 1 else i + 1))"

fun reducer :: "Env \<Rightarrow> AppState \<Rightarrow> Action \<Rightarrow> AppState" where
  "reducer env state (ADD_WAREHOUSE warehouse) =
     (let newWarehouse =
            \<lparr>name_w = name_w warehouse, location = location warehouse,
             id_w = generateUUID env 0\<rparr>
      in state\<lparr>warehouses := warehouses state @ [newWarehouse]\<rparr>)"
| "reducer env state (ADD_PRODUCT product) =
     (let newProduct =
            \<lparr>name_p = name_p product, sku_p = sku_p product, category = category product,
             price = price product, lowStockThreshold = lowStockThreshold product,
             description = description product, images = images product,
             id_p = generateUUID env 0\<rparr>;
          newLog =
            \<lparr>id_l = generateUUID env 1,
             timestamp = toISOString env 0,
             productName = name_p newProduct,
             sku = sku_p newProduct,
             warehouseName = ''N/A'',
             type_l = CREACION,
             quantityChange = 0,
             newQuantityInWarehouse = 0,
             details = ''Producto nuevo a'' @ [CHR 0xC3, CHR 0xB1] @ ''adido al sistema.'',
             user = name_u (currentUser state),
             transactionId = None\<rparr>
      in state\<lparr>products := products state @ [newProduct],
               logs := newLog # logs state\<rparr>)"
| "reducer env state (BULK_ADD_PRODUCTS productsToAdd) =
     (let numbered = zip [0 ..< length productsToAdd] productsToAdd;
          newProducts = map (\<lambda>(k, productData).
            \<lparr>name_p = name_p productData, sku_p = sku_p productData,
             category = category productData, price = price productData,
             lowStockThreshold = lowStockThreshold productData,
             description = description productData, images = images productData,
             id_p = generateUUID env (2 * k)\<rparr>) numbered;
          newLogs = map (\<lambda>(k, productData).
            \<lparr>id_l = generateUUID env (2 * k + 1),
             timestamp = toISOString env k,
             productName = name_p productData,
             sku = sku_p productData,
             warehouseName = ''N/A'',
             type_l = CREACION,
             quantityChange = 0,
             newQuantityInWarehouse = 0,
             details = ''Producto a'' @ [CHR 0xC3, CHR 0xB1] @ ''adido por carga masiva.'',
             user = name_u (currentUser state),
             transactionId = None\<rparr>) numbered
      in state\<lparr>products := products state @ newProducts,
               logs := newLogs @ logs state\<rparr>)"
| "reducer env state (UPDATE_PRODUCT updatedProduct) =
     state\<lparr>products :=
       map (\<lambda>p. if id_p p = id_p updatedProduct then updatedProduct else p) (products state)\<rparr>"
| "reducer env state (DELETE_PRODUCT productId') =
     state\<lparr>products := filter (\<lambda>p. id_p p \<noteq> productId') (products state),
           inventory := filter (\<lambda>i. productId i \<noteq> productId') (inventory state)\<rparr>"
| "reducer env state (ADJUST_STOCK productId' warehouseId' quantityChange' type' details') =
     (case (find (\<lambda>p. id_p p = productId') (products state),
            find (\<lambda>w. id_w w = warehouseId') (warehouses state)) of
        (Some product, Some warehouse) \<Rightarrow>
          (let inventoryItemIndex =
                 findIndex (\<lambda>i. productId i = productId' \<and> warehouseId i = warehouseId')
                   (inventory state);
               (newQuantityInWarehouse', updatedInventory) =
                 (if inventoryItemIndex > - 1 then
                    (let currentItem = inventory state ! nat inventoryItemIndex;
                         q = max 0 (quantity currentItem + quantityChange')
                     in (q, (inventory state)[nat inventoryItemIndex :=
                               currentItem\<lparr>quantity := q\<rparr>]))
                  else
                    (let q = max 0 quantityChange'
                     in (q, if q > 0
                            then inventory state @
                              [\<lparr>productId = productId', warehouseId = warehouseId',
                                quantity = q\<rparr>]
                            else inventory state)));
               newLog =
                 \<lparr>id_l = generateUUID env 0,
                  timestamp = toISOString env 0,
                  productName = name_p product,
                  sku = sku_p product,
                  warehouseName = name_w warehouse,
                  type_l = type',
                  quantityChange = quantityChange',
                  newQuantityInWarehouse = newQuantityInWarehouse',
                  details = details',
                  user = name_u (currentUser state),
                  transactionId = None\<rparr>
           in state\<lparr>inventory := updatedInventory, logs := newLog # logs state\<rparr>)
      | _ \<Rightarrow> state)"
| "reducer env state (TRANSFER_STOCK productId' fromWarehouseId toWarehouseId quantity' details') =
     (case (find (\<lambda>p. id_p p = productId') (products state),
            find (\<lambda>w. id_w w = fromWarehouseId) (warehouses state),
            find (\<lambda>w. id_w w = toWarehouseId) (warehouses state)) of
        (Some product, Some fromWarehouse, Some toWarehouse) \<Rightarrow>
          if quantity' \<le> 0 then state
          else
            (let fromInventoryIndex =
                   findIndex (\<lambda>i. productId i = productId' \<and> warehouseId i = fromWarehouseId)
                     (inventory state)
             in if fromInventoryIndex = - 1 \<or>
                   quantity (inventory state ! nat fromInventoryIndex) < quantity'
                then state
                else
                  (let fromItem = inventory state ! nat fromInventoryIndex;
                       finalFromQuantity = quantity fromItem - quantity';
                       updatedInventory = (inventory state)[nat fromInventoryIndex :=
                                            fromItem\<lparr>quantity := finalFromQuantity\<rparr>];
                       exitLog =
                         \<lparr>id_l = generateUUID env 0,
                          timestamp = toISOString env 0,
                          productName = name_p product,
                          sku = sku_p product,
                          warehouseName = name_w fromWarehouse,
                          type_l = SALIDA,
                          quantityChange = - quantity',
                          newQuantityInWarehouse = finalFromQuantity,
                          details = ''Transferencia a '' @ name_w toWarehouse @ ''. '' @ details',
                          user = name_u (currentUser state),
                          transactionId = None\<rparr>;
                       toInventoryIndex =
                         findIndex (\<lambda>i. productId i = productId' \<and> warehouseId i = toWarehouseId)
                           updatedInventory;
                       (finalToQuantity, updatedInventory') =
                         (if toInventoryIndex > - 1 then
                            (let toItem = updatedInventory ! nat toInventoryIndex;
                                 q = quantity toItem + quantity'
                             in (q, updatedInventory[nat toInventoryIndex :=
                                       toItem\<lparr>quantity := q\<rparr>]))
                          else
                            (quantity',
                             updatedInventory @
                               [\<lparr>productId = productId', warehouseId = toWarehouseId,
                                 quantity = quantity'\<rparr>]));
                       entryLog =
                         \<lparr>id_l = generateUUID env 1,
                          timestamp = toISOString env 1,
                          productName = name_p product,
                          sku = sku_p product,
                          warehouseName = name_w toWarehouse,
                          type_l = ENTRADA,
                          quantityChange = quantity',
                          newQuantityInWarehouse = finalToQuantity,
                          details = ''Transferencia desde '' @ name_w fromWarehouse @ ''. '' @ details',
                          user = name_u (currentUser state),
                          transactionId = None\<rparr>
                   in state\<lparr>inventory := updatedInventory',
                            logs := [exitLog, entryLog] @ logs state\<rparr>))
      | _ \<Rightarrow> state)"
| "reducer env state (ADD_USER user' warehouseIds) =
     (let newUser =
            \<lparr>name_u = name_u user', email = email user', role = role user',
             password = password user', id_u = generateUUID env 0\<rparr>;
          newAccessEntries =
            map (\<lambda>w. \<lparr>userId = id_u newUser, warehouseId_a = w\<rparr>) warehouseIds
      in state\<lparr>users := users state @ [newUser],
               userWarehouseAccess := userWarehouseAccess state @ newAccessEntries\<rparr>)"
| "reducer env state (UPDATE_USER updatedUser warehouseIds) =
     (let users' = map (\<lambda>u. if id_u u = id_u updatedUser then updatedUser else u) (users state);
          userWarehouseAccess' =
            filter (\<lambda>access. userId access \<noteq> id_u updatedUser) (userWarehouseAccess state);
          newAccessEntries =
            map (\<lambda>w. \<lparr>userId = id_u updatedUser, warehouseId_a = w\<rparr>) warehouseIds
      in state\<lparr>users := users',
               userWarehouseAccess := userWarehouseAccess' @ newAccessEntries\<rparr>)"
| "reducer env state (DELETE_USER userId') =
     (if userId' = id_u (currentUser state) then state
      else state\<lparr>users := filter (\<lambda>u. id_u u \<noteq> userId') (users state),
                 userWarehouseAccess :=
                   filter (\<lambda>access. userId access \<noteq> userId') (userWarehouseAccess state)\<rparr>)"
| "reducer env state (BULK_TRANSFER_STOCK items fromWarehouseId toWarehouseId details') = state"
| "reducer env state (UPDATE_PURCHASE_ORDER purchaseOrderId status receivedInWarehouseId) = state"
| "reducer env state (OTHER actionType) = state"

section \<open>Observations used to state the properties\<close>

text \<open>
  The stock of a product in a warehouse, as the forms read it
  (\<^verbatim>\<open>AdjustStockModal.currentStock\<close>, \<^verbatim>\<open>TransferStockModal.fromStock\<close>):
  \<^verbatim>\<open>inventory.find(i => i.productId === product.id && i.warehouseId === warehouseId)?.quantity || 0\<close>.
\<close>

definition currentStock :: "InventoryItem list \<Rightarrow> string \<Rightarrow> string \<Rightarrow> int" where
  "currentStock items productId' warehouseId' =
     (case find (\<lambda>i. productId i = productId' \<and> warehouseId i = warehouseId') items of
        None \<Rightarrow> 0
      | Some item \<Rightarrow> quantity item)"

text \<open>
  The provider runs \<^verbatim>\<open>useReducer(reducer, initialState)\<close>: every state the application
  shows is the initial state or the reducer's result on a reachable state.
\<close>

inductive reachable :: "AppState \<Rightarrow> bool" where
  init: "reachable (initialState isoAgo)"
| step: "reachable state \<Longrightarrow> reachable (reducer env state action)"

text \<open>
  The outcome of one dispatch, as an error or a new state. The reducer contains no
  \<^verbatim>\<open>throw\<close>: each of its guards is \<^verbatim>\<open>return state\<close>, so the outcome is always a state.
  The source defines no error class; the error names are the ones the specification
  uses, kept here only to state which outcome a dispatch does not have.
\<close>

datatype error = NotFoundError | InvalidOperationError | InsufficientStockError | InvalidStateError

definition dispatch :: "Env \<Rightarrow> AppState \<Rightarrow> Action \<Rightarrow> error + AppState" where
  "dispatch env state action = Inr (reducer env state action)"

text \<open>A concrete environment and a concrete initial state, for evaluated instances.\<close>

definition sampleEnv :: Env where
  "sampleEnv =
     \<lparr>generateUUID = (\<lambda>k. ''uuid-'' @ replicate (Suc k) (CHR ''a'')),
      toISOString = (\<lambda>k. ''2024-05-01T12:00:00.000Z'')\<rparr>"

definition sampleState :: AppState where
  "sampleState = initialState (\<lambda>ms. ''2024-05-01T11:00:00.000Z'')"

section \<open>Properties\<close>


subsection \<open>The array lookups\<close>

lemma findIndex_ge: "- 1 \<le> findIndex P xs"
  by (induction xs) (auto simp: Let_def)

lemma findIndex_lt: "findIndex P xs < int (length xs)"
  by (induction xs) (auto simp: Let_def)

lemma findIndex_none_iff: "findIndex P xs = - 1 \<longleftrightarrow> (\<forall>x \<in> set xs. \<not> P x)"
proof (induction xs)
  case Nil
  show ?case by simp
next
  case (Cons x xs)
  have "- 1 \<le> findIndex P xs" by (rule findIndex_ge)
  with Cons show ?case by (auto simp: Let_def)
qed

lemma findIndex_nat_lt: "findIndex P xs \<noteq> - 1 \<Longrightarrow> nat (findIndex P xs) < length xs"
  using findIndex_ge [of P xs] findIndex_lt [of P xs] by linarith

lemma find_findIndex:
  "find P xs = (if findIndex P xs = - 1 then None else Some (xs ! nat (findIndex P xs)))"
proof (induction xs)
  case Nil
  show ?case by simp
next
  case (Cons x xs)
  have "- 1 \<le> findIndex P xs" by (rule findIndex_ge)
  with Cons show ?case by (auto simp: Let_def nat_add_distrib)
qed

lemma findIndex_sat: "findIndex P xs \<noteq> - 1 \<Longrightarrow> P (xs ! nat (findIndex P xs))"
proof (induction xs)
  case Nil
  then show ?case by simp
next
  case (Cons x xs)
  have "- 1 \<le> findIndex P xs" by (rule findIndex_ge)
  with Cons show ?case by (auto simp: Let_def nat_add_distrib split: if_splits)
qed

lemma findIndex_update_first:
  "findIndex P xs \<noteq> - 1 \<Longrightarrow> P y \<Longrightarrow>
   findIndex P (xs[nat (findIndex P xs) := y]) = findIndex P xs"
proof (induction xs)
  case Nil
  then show ?case by simp
next
  case (Cons x xs)
  have "- 1 \<le> findIndex P xs" by (rule findIndex_ge)
  with Cons show ?case by (auto simp: Let_def nat_add_distrib split: if_splits)
qed


lemma find_append: "find P (xs @ ys) = (case find P xs of None \<Rightarrow> find P ys | Some x \<Rightarrow> Some x)"
  by (induction xs) auto


lemma all_update:
  "\<forall>x \<in> set xs. P x \<Longrightarrow> P y \<Longrightarrow> \<forall>x \<in> set (xs[n := y]). P x"
  by (metis insert_iff set_update_subset_insert subsetD)

lemma findIndex_nth_mem: "findIndex P xs \<noteq> - 1 \<Longrightarrow> xs ! nat (findIndex P xs) \<in> set xs"
  by (simp add: findIndex_nat_lt)


subsection \<open>Fields an action leaves alone\<close>

lemma currentUser_reducer [simp]: "currentUser (reducer env s a) = currentUser s"
  by (cases a) (simp_all add: Let_def split: option.splits prod.splits)

lemma users_reducer_adjust [simp]: "users (reducer env s (ADJUST_STOCK p w c t d)) = users s"
  by (simp add: Let_def split: option.splits prod.splits)

lemma users_reducer_transfer [simp]: "users (reducer env s (TRANSFER_STOCK p f t q d)) = users s"
  by (simp add: Let_def split: option.splits prod.splits)


subsection \<open>The inventory after an adjustment and after a transfer\<close>

lemma nonneg_update:
  "\<forall>i \<in> set xs. 0 \<le> quantity i \<Longrightarrow> 0 \<le> v \<Longrightarrow>
   \<forall>i \<in> set (xs[n := y\<lparr>quantity := v\<rparr>]). 0 \<le> quantity i"
  by (rule all_update) simp_all

lemma adjust_inventory:
  "inventory (reducer env s (ADJUST_STOCK p w c t d)) =
     (if find (\<lambda>x. id_p x = p) (products s) = None \<or> find (\<lambda>x. id_w x = w) (warehouses s) = None
      then inventory s
      else (let idx = findIndex (\<lambda>i. productId i = p \<and> warehouseId i = w) (inventory s) in
        if idx > - 1
        then (inventory s)[nat idx := (inventory s ! nat idx)
               \<lparr>quantity := max 0 (quantity (inventory s ! nat idx) + c)\<rparr>]
        else if 0 < c then inventory s @ [\<lparr>productId = p, warehouseId = w, quantity = c\<rparr>]
        else inventory s))"
  by (simp add: Let_def max_def split: option.splits)

lemma adjust_nonneg:
  assumes "\<forall>i \<in> set (inventory s). 0 \<le> quantity i"
  shows "\<forall>i \<in> set (inventory (reducer env s (ADJUST_STOCK p w c t d))). 0 \<le> quantity i"
proof -
  let ?s' = "reducer env s (ADJUST_STOCK p w c t d)"
  let ?idx = "findIndex (\<lambda>i. productId i = p \<and> warehouseId i = w) (inventory s)"
  let ?cur = "inventory s ! nat ?idx"
  have "inventory ?s' = inventory s
      \<or> inventory ?s' = (inventory s)[nat ?idx := ?cur\<lparr>quantity := max 0 (quantity ?cur + c)\<rparr>]
      \<or> 0 < c \<and> inventory ?s' = inventory s @ [\<lparr>productId = p, warehouseId = w, quantity = c\<rparr>]"
    unfolding adjust_inventory Let_def by (simp del: findIndex.simps)
  then consider (same) "inventory ?s' = inventory s"
    | (upd) "inventory ?s' = (inventory s)[nat ?idx := ?cur\<lparr>quantity := max 0 (quantity ?cur + c)\<rparr>]"
    | (app) "0 < c" "inventory ?s' = inventory s @ [\<lparr>productId = p, warehouseId = w, quantity = c\<rparr>]"
    by blast
  then show ?thesis
  proof cases
    case same
    then show ?thesis using assms by simp
  next
    case upd
    show ?thesis unfolding upd by (rule nonneg_update [OF assms]) simp
  next
    case app
    then show ?thesis using assms by simp
  qed
qed

lemma transfer_inventory:
  "inventory (reducer env s (TRANSFER_STOCK p f t q d)) =
     (if find (\<lambda>x. id_p x = p) (products s) = None \<or> find (\<lambda>x. id_w x = f) (warehouses s) = None
         \<or> find (\<lambda>x. id_w x = t) (warehouses s) = None \<or> q \<le> 0
      then inventory s
      else (let i = findIndex (\<lambda>i. productId i = p \<and> warehouseId i = f) (inventory s) in
        if i = - 1 \<or> quantity (inventory s ! nat i) < q then inventory s
        else (let u = (inventory s)[nat i := (inventory s ! nat i)
                        \<lparr>quantity := quantity (inventory s ! nat i) - q\<rparr>];
                  j = findIndex (\<lambda>i. productId i = p \<and> warehouseId i = t) u in
          if j > - 1 then u[nat j := (u ! nat j)\<lparr>quantity := quantity (u ! nat j) + q\<rparr>]
          else u @ [\<lparr>productId = p, warehouseId = t, quantity = q\<rparr>])))"
  by (simp add: Let_def split: option.splits)


lemma transfer_nonneg:
  assumes "\<forall>i \<in> set (inventory s). 0 \<le> quantity i"
  shows "\<forall>i \<in> set (inventory (reducer env s (TRANSFER_STOCK p f t q d))). 0 \<le> quantity i"
proof -
  let ?s' = "reducer env s (TRANSFER_STOCK p f t q d)"
  define i where "i = findIndex (\<lambda>i. productId i = p \<and> warehouseId i = f) (inventory s)"
  define u where "u = (inventory s)[nat i := (inventory s ! nat i)
                        \<lparr>quantity := quantity (inventory s ! nat i) - q\<rparr>]"
  define j where "j = findIndex (\<lambda>i. productId i = p \<and> warehouseId i = t) u"
  have "inventory ?s' = inventory s
      \<or> 0 < q \<and> \<not> quantity (inventory s ! nat i) < q \<and> j \<noteq> - 1 \<and>
        inventory ?s' = u[nat j := (u ! nat j)\<lparr>quantity := quantity (u ! nat j) + q\<rparr>]
      \<or> 0 < q \<and> \<not> quantity (inventory s ! nat i) < q \<and>
        inventory ?s' = u @ [\<lparr>productId = p, warehouseId = t, quantity = q\<rparr>]"
    unfolding transfer_inventory Let_def i_def u_def j_def
    by (simp del: findIndex.simps)
  then consider (same) "inventory ?s' = inventory s"
    | (upd) "0 < q" "\<not> quantity (inventory s ! nat i) < q" "j \<noteq> - 1"
        "inventory ?s' = u[nat j := (u ! nat j)\<lparr>quantity := quantity (u ! nat j) + q\<rparr>]"
    | (app) "0 < q" "\<not> quantity (inventory s ! nat i) < q"
        "inventory ?s' = u @ [\<lparr>productId = p, warehouseId = t, quantity = q\<rparr>]"
    by blast
  then show ?thesis
  proof cases
    case same
    then show ?thesis using assms by simp
  next
    case upd
    have u: "\<forall>i \<in> set u. 0 \<le> quantity i"
      unfolding u_def by (rule nonneg_update [OF assms]) (use upd(2) in simp)
    have "u ! nat j \<in> set u" using upd(3) unfolding j_def by (rule findIndex_nth_mem)
    with u have "0 \<le> quantity (u ! nat j)" by blast
    with upd(1) have "0 \<le> quantity (u ! nat j) + q" by simp
    then show ?thesis unfolding upd(4) by (rule nonneg_update [OF u])
  next
    case app
    have u: "\<forall>i \<in> set u. 0 \<le> quantity i"
      unfolding u_def by (rule nonneg_update [OF assms]) (use app(2) in simp)
    then show ?thesis using app(1) unfolding app(3) by simp
  qed
qed

lemma reducer_nonneg:
  assumes "\<forall>i \<in> set (inventory s). 0 \<le> quantity i"
  shows "\<forall>i \<in> set (inventory (reducer env s a)). 0 \<le> quantity i"
proof (cases a)
  case (ADJUST_STOCK p w c t d)
  then show ?thesis using adjust_nonneg [OF assms] by simp
next
  case (TRANSFER_STOCK p f t q d)
  then show ?thesis using transfer_nonneg [OF assms] by simp
qed (use assms in \<open>simp_all add: Let_def\<close>)

lemma initial_nonneg: "\<forall>i \<in> set (inventory (initialState isoAgo)). 0 \<le> quantity i"
  by (simp add: initialState_def mockInventory_def)

lemma reachable_nonneg: "reachable s \<Longrightarrow> \<forall>i \<in> set (inventory s). 0 \<le> quantity i"
proof (induction rule: reachable.induct)
  case (init isoAgo)
  show ?case by (rule initial_nonneg)
next
  case (step state env action)
  then show ?case by (intro reducer_nonneg)
qed


subsection \<open>Stock lookups after an update\<close>

lemma currentStock_alt:
  "currentStock items p w =
     (let i = findIndex (\<lambda>i. productId i = p \<and> warehouseId i = w) items
      in if i = - 1 then 0 else quantity (items ! nat i))"
  by (simp add: currentStock_def find_findIndex Let_def)

lemma stock_update_first:
  assumes "findIndex (\<lambda>i. productId i = p \<and> warehouseId i = w) items \<noteq> - 1"
  shows "currentStock
           (items[nat (findIndex (\<lambda>i. productId i = p \<and> warehouseId i = w) items) :=
              (items ! nat (findIndex (\<lambda>i. productId i = p \<and> warehouseId i = w) items))
                \<lparr>quantity := v\<rparr>]) p w = v"
proof -
  let ?K = "\<lambda>i. productId i = p \<and> warehouseId i = w"
  let ?i = "findIndex ?K items"
  let ?y = "(items ! nat ?i)\<lparr>quantity := v\<rparr>"
  have "?K (items ! nat ?i)" using assms by (rule findIndex_sat)
  then have "?K ?y" by simp
  with assms have "findIndex ?K (items[nat ?i := ?y]) = ?i" by (rule findIndex_update_first)
  moreover have "nat ?i < length items" using assms by (rule findIndex_nat_lt)
  ultimately show ?thesis using assms by (simp add: currentStock_alt Let_def)
qed


lemma stock_append:
  "currentStock (items @ [it]) p w =
     (if findIndex (\<lambda>i. productId i = p \<and> warehouseId i = w) items = - 1
      then (if productId it = p \<and> warehouseId it = w then quantity it else 0)
      else currentStock items p w)"
proof (cases "find (\<lambda>i. productId i = p \<and> warehouseId i = w) items")
  case None
  moreover from None have "findIndex (\<lambda>i. productId i = p \<and> warehouseId i = w) items = - 1"
    by (simp add: find_findIndex split: if_splits)
  ultimately show ?thesis by (simp add: currentStock_def find_append)
next
  case (Some x)
  moreover from Some have "findIndex (\<lambda>i. productId i = p \<and> warehouseId i = w) items \<noteq> - 1"
    by (simp add: find_findIndex split: if_splits)
  ultimately show ?thesis by (simp add: currentStock_def find_append)
qed

subsection \<open>Effects of a transfer and of an adjustment\<close>

lemma reachable_sampleState: "reachable sampleState"
  unfolding sampleState_def by (rule reachable.init)

lemma transfer_logs:
  assumes "find (\<lambda>x. id_p x = p) (products s) = Some product"
    and "find (\<lambda>x. id_w x = f) (warehouses s) = Some fromWarehouse"
    and "find (\<lambda>x. id_w x = t) (warehouses s) = Some toWarehouse"
    and "0 < q"
    and "findIndex (\<lambda>i. productId i = p \<and> warehouseId i = f) (inventory s) \<noteq> - 1"
    and "\<not> quantity (inventory s !
            nat (findIndex (\<lambda>i. productId i = p \<and> warehouseId i = f) (inventory s))) < q"
  shows "\<exists>exitLog entryLog.
     logs (reducer env s (TRANSFER_STOCK p f t q d)) = exitLog # entryLog # logs s \<and>
     type_l exitLog = SALIDA \<and> quantityChange exitLog = - q \<and>
     warehouseName exitLog = name_w fromWarehouse \<and>
     newQuantityInWarehouse exitLog =
       quantity (inventory s !
         nat (findIndex (\<lambda>i. productId i = p \<and> warehouseId i = f) (inventory s))) - q \<and>
     transactionId exitLog = None \<and>
     type_l entryLog = ENTRADA \<and> quantityChange entryLog = q \<and>
     warehouseName entryLog = name_w toWarehouse \<and>
     newQuantityInWarehouse entryLog =
       currentStock (inventory (reducer env s (TRANSFER_STOCK p f t q d))) p t \<and>
     transactionId entryLog = None"
proof -
  define i where "i = findIndex (\<lambda>i. productId i = p \<and> warehouseId i = f) (inventory s)"
  define u where "u = (inventory s)[nat i := (inventory s ! nat i)
                        \<lparr>quantity := quantity (inventory s ! nat i) - q\<rparr>]"
  define j where "j = findIndex (\<lambda>i. productId i = p \<and> warehouseId i = t) u"
  have inv': "inventory (reducer env s (TRANSFER_STOCK p f t q d)) =
      (if j > - 1 then u[nat j := (u ! nat j)\<lparr>quantity := quantity (u ! nat j) + q\<rparr>]
       else u @ [\<lparr>productId = p, warehouseId = t, quantity = q\<rparr>])"
    unfolding transfer_inventory Let_def i_def u_def j_def
    using assms by (simp del: findIndex.simps)
  have stock: "currentStock (inventory (reducer env s (TRANSFER_STOCK p f t q d))) p t =
      (if j > - 1 then quantity (u ! nat j) + q else q)"
  proof (cases "j > - 1")
    case True
    then have "j \<noteq> - 1" by simp
    then show ?thesis
      unfolding inv' using True stock_update_first [of p t u "quantity (u ! nat j) + q"]
      by (simp add: j_def del: findIndex.simps)
  next
    case False
    then have "j = - 1" using findIndex_ge [of "\<lambda>i. productId i = p \<and> warehouseId i = t" u]
      by (simp add: j_def del: findIndex.simps)
    then show ?thesis unfolding inv' by (simp add: stock_append j_def [symmetric] del: findIndex.simps)
  qed
  show ?thesis
    unfolding stock
    using assms
    by (simp add: Let_def i_def u_def j_def split: prod.splits del: findIndex.simps)
qed

lemma stock_positive_found:
  assumes "0 < q" and "q \<le> currentStock items p w"
  shows "findIndex (\<lambda>i. productId i = p \<and> warehouseId i = w) items \<noteq> - 1"
    and "currentStock items p w =
      quantity (items ! nat (findIndex (\<lambda>i. productId i = p \<and> warehouseId i = w) items))"
  using assms by (auto simp: currentStock_alt Let_def split: if_splits)


lemma transfer_guard_fail:
  assumes "find (\<lambda>x. id_p x = p) (products s) = None \<or> find (\<lambda>x. id_w x = f) (warehouses s) = None
         \<or> find (\<lambda>x. id_w x = t) (warehouses s) = None \<or> q \<le> 0
         \<or> findIndex (\<lambda>i. productId i = p \<and> warehouseId i = f) (inventory s) = - 1
         \<or> quantity (inventory s !
              nat (findIndex (\<lambda>i. productId i = p \<and> warehouseId i = f) (inventory s))) < q"
  shows "reducer env s (TRANSFER_STOCK p f t q d) = s"
  using assms by (auto simp: Let_def split: option.splits simp del: findIndex.simps)

lemma transfer_rejected:
  assumes "case find (\<lambda>i. productId i = p \<and> warehouseId i = f) (inventory s) of
             None \<Rightarrow> True | Some item \<Rightarrow> quantity item < q"
  shows "reducer env s (TRANSFER_STOCK p f t q d) = s"
proof -
  have "findIndex (\<lambda>i. productId i = p \<and> warehouseId i = f) (inventory s) = - 1
      \<or> quantity (inventory s !
           nat (findIndex (\<lambda>i. productId i = p \<and> warehouseId i = f) (inventory s))) < q"
    using assms by (simp add: find_findIndex split: if_splits)
  then show ?thesis by (intro transfer_guard_fail) blast
qed


lemma adjust_effect:
  assumes "find (\<lambda>x. id_p x = p) (products s) = Some product"
    and "find (\<lambda>x. id_w x = w) (warehouses s) = Some warehouse"
  shows "\<exists>newLog. logs (reducer env s (ADJUST_STOCK p w c t d)) = newLog # logs s \<and>
           type_l newLog = t \<and> quantityChange newLog = c \<and>
           warehouseName newLog = name_w warehouse \<and>
           newQuantityInWarehouse newLog = max 0 (currentStock (inventory s) p w + c) \<and>
           transactionId newLog = None"
    and "currentStock (inventory (reducer env s (ADJUST_STOCK p w c t d))) p w =
           max 0 (currentStock (inventory s) p w + c)"
proof -
  let ?K = "\<lambda>i. productId i = p \<and> warehouseId i = w"
  define i where "i = findIndex ?K (inventory s)"
  have ge: "- 1 \<le> i" unfolding i_def by (rule findIndex_ge)
  have cur: "currentStock (inventory s) p w = (if i = - 1 then 0 else quantity (inventory s ! nat i))"
    by (simp add: currentStock_alt Let_def i_def)
  show "\<exists>newLog. logs (reducer env s (ADJUST_STOCK p w c t d)) = newLog # logs s \<and>
           type_l newLog = t \<and> quantityChange newLog = c \<and>
           warehouseName newLog = name_w warehouse \<and>
           newQuantityInWarehouse newLog = max 0 (currentStock (inventory s) p w + c) \<and>
           transactionId newLog = None"
    unfolding cur using assms ge
    by (simp add: Let_def i_def [symmetric] split: prod.splits del: findIndex.simps)
  show "currentStock (inventory (reducer env s (ADJUST_STOCK p w c t d))) p w =
           max 0 (currentStock (inventory s) p w + c)"
  proof (cases "i = - 1")
    case True
    then show ?thesis
      unfolding adjust_inventory Let_def using assms
      by (simp add: i_def [symmetric] stock_append cur del: findIndex.simps)
  next
    case False
    with ge have "i > - 1" by simp
    then show ?thesis
      unfolding adjust_inventory Let_def cur using assms False
        stock_update_first [of p w "inventory s" "max 0 (quantity (inventory s ! nat i) + c)"]
      by (simp add: i_def del: findIndex.simps)
  qed
qed

lemma adjust_not_found:
  assumes "find (\<lambda>x. id_p x = p) (products s) = None \<or> find (\<lambda>x. id_w x = w) (warehouses s) = None"
  shows "reducer env s (ADJUST_STOCK p w c t d) = s"
  using assms by (auto simp: Let_def split: option.splits simp del: findIndex.simps)

lemma adjust_zero_inventory:
  assumes "\<forall>i \<in> set (inventory s). 0 \<le> quantity i"
  shows "inventory (reducer env s (ADJUST_STOCK p w 0 t d)) = inventory s"
proof -
  let ?K = "\<lambda>i. productId i = p \<and> warehouseId i = w"
  define i where "i = findIndex ?K (inventory s)"
  have "(inventory s)[nat i := (inventory s ! nat i)
          \<lparr>quantity := max 0 (quantity (inventory s ! nat i) + 0)\<rparr>] = inventory s"
    if "i > - 1"
  proof -
    from that have "i \<noteq> - 1" by simp
    then have "inventory s ! nat i \<in> set (inventory s)" unfolding i_def by (rule findIndex_nth_mem)
    with assms have "0 \<le> quantity (inventory s ! nat i)" by blast
    then show ?thesis by (simp add: max_def)
  qed
  then show ?thesis
    unfolding adjust_inventory Let_def by (simp add: i_def del: findIndex.simps)
qed

subsection \<open>Invariants of the log and of the user list\<close>

lemma reducer_logs_no_transactionId:
  assumes "\<forall>l \<in> set (logs s). transactionId l = None"
  shows "\<forall>l \<in> set (logs (reducer env s a)). transactionId l = None"
proof (cases a)
  case (ADJUST_STOCK p w c t d)
  show ?thesis
  proof (cases "find (\<lambda>x. id_p x = p) (products s) = None
      \<or> find (\<lambda>x. id_w x = w) (warehouses s) = None")
    case True
    then have "reducer env s (ADJUST_STOCK p w c t d) = s" by (rule adjust_not_found)
    then show ?thesis using assms ADJUST_STOCK by simp
  next
    case False
    then obtain product warehouse
      where "find (\<lambda>x. id_p x = p) (products s) = Some product"
        and "find (\<lambda>x. id_w x = w) (warehouses s) = Some warehouse" by auto
    from adjust_effect(1) [OF this, of env c t d]
    obtain newLog where "logs (reducer env s (ADJUST_STOCK p w c t d)) = newLog # logs s"
      and "transactionId newLog = None" by blast
    then show ?thesis using assms ADJUST_STOCK by simp
  qed
next
  case (TRANSFER_STOCK p f t q d)
  let ?i = "findIndex (\<lambda>i. productId i = p \<and> warehouseId i = f) (inventory s)"
  show ?thesis
  proof (cases "find (\<lambda>x. id_p x = p) (products s) = None \<or> find (\<lambda>x. id_w x = f) (warehouses s) = None
         \<or> find (\<lambda>x. id_w x = t) (warehouses s) = None \<or> q \<le> 0
         \<or> ?i = - 1 \<or> quantity (inventory s ! nat ?i) < q")
    case True
    then have "reducer env s (TRANSFER_STOCK p f t q d) = s" by (rule transfer_guard_fail)
    then show ?thesis using assms TRANSFER_STOCK by simp
  next
    case False
    then obtain product fromWarehouse toWarehouse
      where "find (\<lambda>x. id_p x = p) (products s) = Some product"
        and "find (\<lambda>x. id_w x = f) (warehouses s) = Some fromWarehouse"
        and "find (\<lambda>x. id_w x = t) (warehouses s) = Some toWarehouse"
        and "0 < q" and "?i \<noteq> - 1" and "\<not> quantity (inventory s ! nat ?i) < q" by auto
    from transfer_logs [OF this, of env d]
    obtain exitLog entryLog
      where "logs (reducer env s (TRANSFER_STOCK p f t q d)) = exitLog # entryLog # logs s"
        and "transactionId exitLog = None" and "transactionId entryLog = None" by blast
    then show ?thesis using assms TRANSFER_STOCK by simp
  qed
next
  case (BULK_ADD_PRODUCTS ps)
  then show ?thesis using assms by (auto simp: Let_def)
qed (use assms in \<open>simp_all add: Let_def\<close>)

lemma reachable_no_transactionId:
  "reachable s \<Longrightarrow> \<forall>l \<in> set (logs s). transactionId l = None"
proof (induction rule: reachable.induct)
  case (init isoAgo)
  show ?case by (simp add: initialState_def mockLogs_def)
next
  case (step state env action)
  then show ?case by (intro reducer_logs_no_transactionId)
qed

lemma reducer_current_id:
  assumes "\<exists>u \<in> set (users s). id_u u = id_u (currentUser s)"
  shows "\<exists>u \<in> set (users (reducer env s a)). id_u u = id_u (currentUser (reducer env s a))"
proof (cases a)
  case (UPDATE_USER v ws)
  let ?f = "\<lambda>u. if id_u u = id_u v then v else u"
  from assms obtain u where u: "u \<in> set (users s)" "id_u u = id_u (currentUser s)" by blast
  have "users (reducer env s a) = map ?f (users s)"
    using UPDATE_USER by (simp add: Let_def)
  moreover have "?f u \<in> ?f ` set (users s)" using u(1) by (rule imageI)
  ultimately have "?f u \<in> set (users (reducer env s a))" by (simp only: set_map)
  moreover have "id_u (?f u) = id_u (currentUser s)" using u by simp
  ultimately show ?thesis unfolding currentUser_reducer by blast
next
  case (DELETE_USER x)
  then show ?thesis using assms by auto
next
  case (ADJUST_STOCK p w c t d)
  then show ?thesis using assms by (simp del: reducer.simps)
next
  case (TRANSFER_STOCK p f t q d)
  then show ?thesis using assms by (simp del: reducer.simps)
qed (use assms in \<open>auto simp: Let_def\<close>)

lemma reachable_current_id:
  "reachable s \<Longrightarrow> \<exists>u \<in> set (users s). id_u u = id_u (currentUser s)"
proof (induction rule: reachable.induct)
  case (init isoAgo)
  show ?case by (simp add: initialState_def mockUsers_def)
next
  case (step state env action)
  then show ?case by (intro reducer_current_id)
qed

subsection \<open>Lookups in the sample state\<close>

lemma sample_p1: "find (\<lambda>x. id_p x = ''p1'') (products sampleState) = Some (mockProducts ! 0)"
  by (simp add: sampleState_def initialState_def mockProducts_def)


lemma sample_w1: "find (\<lambda>x. id_w x = ''w1'') (warehouses sampleState) = Some (mockWarehouses ! 0)"
  by (simp add: sampleState_def initialState_def mockWarehouses_def)

lemma sample_w2: "find (\<lambda>x. id_w x = ''w2'') (warehouses sampleState) = Some (mockWarehouses ! 1)"
  by (simp add: sampleState_def initialState_def mockWarehouses_def)

lemma sample_stock:
  "currentStock (inventory sampleState) ''p1'' ''w1'' = 25"
  "currentStock (inventory sampleState) ''p1'' ''w2'' = 12"
  "currentStock (inventory sampleState) ''p2'' ''w1'' = 8"
  "currentStock (inventory sampleState) ''p2'' ''w2'' = 0"
  by (simp_all add: sampleState_def initialState_def mockInventory_def currentStock_def)


lemma sample_stock':
  "currentStock (inventory sampleState) ''p3'' ''w1'' = 80"
  "find (\<lambda>i. productId i = ''p2'' \<and> warehouseId i = ''w3'') (inventory sampleState) = None"
  "find (\<lambda>i. productId i = ''p2'' \<and> warehouseId i = ''w1'') (inventory sampleState) =
     Some \<lparr>productId = ''p2'', warehouseId = ''w1'', quantity = 8\<rparr>"
  by (simp_all add: sampleState_def initialState_def mockInventory_def currentStock_def)

lemma sample_current: "id_u (currentUser sampleState) = ''u1''"
  by (simp add: sampleState_def initialState_def mockUsers_def)

subsection \<open>Ledger quantities are never negative\<close>



subsection \<open>A successful transfer\<close>






subsection \<open>A transfer that the source stock does not cover\<close>

text \<open>
  C3, as amended. A transfer whose source ledger entry is absent, or holds less than the
  requested quantity, is not applied and raises no error: the outcome of the dispatch
  is the very state it was given, so no quantity is modified and no log entry is added.
  (The claim has the operation fail with \<open>InsufficientStockError\<close>; the guard of the
  reducer is \<^verbatim>\<open>return state\<close>.)
\<close>

theorem transfer_without_stock_returns_state:
  assumes "case find (\<lambda>i. productId i = p \<and> warehouseId i = f) (inventory s) of
             None \<Rightarrow> True | Some item \<Rightarrow> quantity item < q"
  shows "dispatch env s (TRANSFER_STOCK p f t q d) = Inr s"
  unfolding dispatch_def using transfer_rejected [OF assms] by simp

theorem transfer_without_stock_returns_state_witness:
  "dispatch sampleEnv sampleState (TRANSFER_STOCK ''p2'' ''w3'' ''w1'' 1 ''devolucion'')
     = Inr sampleState"
proof -
  have "case find (\<lambda>i. productId i = ''p2'' \<and> warehouseId i = ''w3'') (inventory sampleState) of
          None \<Rightarrow> True | Some item \<Rightarrow> quantity item < 1"
    by (simp add: sample_stock')
  then show ?thesis by (rule transfer_without_stock_returns_state)
qed

text \<open>
  The claim as stated fails where product \<open>p2\<close> has 8 units at \<open>w1\<close> and 10 are
  requested: the dispatch returns the state, it does not fail with
  \<open>InsufficientStockError\<close>.
\<close>

theorem transfer_without_stock_counterexample:
  "currentStock (inventory sampleState) ''p2'' ''w1'' < 10 \<and>
   dispatch sampleEnv sampleState (TRANSFER_STOCK ''p2'' ''w1'' ''w2'' 10 ''pedido'')
     = Inr sampleState \<and>
   dispatch sampleEnv sampleState (TRANSFER_STOCK ''p2'' ''w1'' ''w2'' 10 ''pedido'')
     \<noteq> Inl InsufficientStockError"
proof -
  have "case find (\<lambda>i. productId i = ''p2'' \<and> warehouseId i = ''w1'') (inventory sampleState) of
          None \<Rightarrow> True | Some item \<Rightarrow> quantity item < 10"
    by (simp add: sample_stock')
  then have "reducer sampleEnv sampleState (TRANSFER_STOCK ''p2'' ''w1'' ''w2'' 10 ''pedido'')
      = sampleState"
    by (rule transfer_rejected)
  then show ?thesis by (simp add: dispatch_def sample_stock del: reducer.simps)
qed

subsection \<open>Bulk transfer\<close>


subsection \<open>Purchase order receipt\<close>


subsection \<open>What the log entry of an adjustment records\<close>




subsection \<open>Transaction identifiers\<close>

text \<open>
  C7, as amended. A successful transfer generates no transactionId: it puts two entries
  in front of the log and neither carries one. More generally no operation of the
  reducer produces a log entry with a transactionId: in every reachable state no log
  entry carries one, whether or not the operation that produced it added several
  entries. (The claim has both entries of a transfer tagged with one fresh
  transactionId.)
\<close>

theorem transfer_logs_without_transactionId:
  "(find (\<lambda>x. id_p x = p) (products s) = Some product \<and>
    find (\<lambda>x. id_w x = f) (warehouses s) = Some fromWarehouse \<and>
    find (\<lambda>x. id_w x = t) (warehouses s) = Some toWarehouse \<and>
    0 < q \<and> q \<le> currentStock (inventory s) p f \<longrightarrow>
    (\<exists>exitLog entryLog.
       logs (reducer env s (TRANSFER_STOCK p f t q d)) = exitLog # entryLog # logs s \<and>
       transactionId exitLog = None \<and> transactionId entryLog = None)) \<and>
   (reachable s \<longrightarrow> (\<forall>l \<in> set (logs s). transactionId l = None))"
proof (intro conjI impI)
  assume a: "find (\<lambda>x. id_p x = p) (products s) = Some product \<and>
    find (\<lambda>x. id_w x = f) (warehouses s) = Some fromWarehouse \<and>
    find (\<lambda>x. id_w x = t) (warehouses s) = Some toWarehouse \<and>
    0 < q \<and> q \<le> currentStock (inventory s) p f"
  then have q: "0 < q" "q \<le> currentStock (inventory s) p f" by simp_all
  note found = stock_positive_found [OF q]
  have ge: "\<not> quantity (inventory s !
      nat (findIndex (\<lambda>i. productId i = p \<and> warehouseId i = f) (inventory s))) < q"
    using q(2) found(2) by simp
  from a transfer_logs [OF _ _ _ q(1) found(1) ge, of product fromWarehouse t toWarehouse env d]
  show "\<exists>exitLog entryLog.
       logs (reducer env s (TRANSFER_STOCK p f t q d)) = exitLog # entryLog # logs s \<and>
       transactionId exitLog = None \<and> transactionId entryLog = None"
    by blast
next
  assume "reachable s"
  then show "\<forall>l \<in> set (logs s). transactionId l = None"
    by (rule reachable_no_transactionId)
qed

theorem transfer_logs_without_transactionId_witness:
  "(\<exists>exitLog entryLog.
      logs (reducer sampleEnv sampleState (TRANSFER_STOCK ''p1'' ''w1'' ''w2'' 10 ''reposicion''))
        = exitLog # entryLog # logs sampleState \<and>
      transactionId exitLog = None \<and> transactionId entryLog = None) \<and>
   list_all (\<lambda>l. transactionId l = None) (logs sampleState)"
  using transfer_logs_without_transactionId
    [of "''p1''" sampleState "mockProducts ! 0" "''w1''" "mockWarehouses ! 0" "''w2''"
        "mockWarehouses ! 1" 10 sampleEnv "''reposicion''"]
    sample_p1 sample_w1 sample_w2 reachable_sampleState
  by (simp add: sample_stock list_all_iff del: reducer.simps)

text \<open>
  The claim as stated fails at the transfer of 10 units of \<open>p1\<close> from \<open>w1\<close> to \<open>w2\<close>: it
  succeeds, adds two log entries, and neither carries a transactionId.
\<close>

theorem transfer_transactionId_counterexample:
  "length (logs (reducer sampleEnv sampleState
      (TRANSFER_STOCK ''p1'' ''w1'' ''w2'' 10 ''reposicion''))) = length (logs sampleState) + 2 \<and>
   transactionId (logs (reducer sampleEnv sampleState
      (TRANSFER_STOCK ''p1'' ''w1'' ''w2'' 10 ''reposicion'')) ! 0) = None \<and>
   transactionId (logs (reducer sampleEnv sampleState
      (TRANSFER_STOCK ''p1'' ''w1'' ''w2'' 10 ''reposicion'')) ! 1) = None"
proof -
  have q: "(0::int) < 10" "10 \<le> currentStock (inventory sampleState) ''p1'' ''w1''"
    by (simp_all add: sample_stock)
  note found = stock_positive_found [OF q]
  have ge: "\<not> quantity (inventory sampleState !
      nat (findIndex (\<lambda>i. productId i = ''p1'' \<and> warehouseId i = ''w1'') (inventory sampleState)))
      < 10"
    using q(2) found(2) by simp
  from transfer_logs [OF sample_p1 sample_w1 sample_w2 q(1) found(1) ge,
      of sampleEnv "''reposicion''"]
  show ?thesis by (auto simp del: reducer.simps)
qed

subsection \<open>A transfer within one warehouse\<close>



subsection \<open>An adjustment by zero\<close>

text \<open>
  C9, as amended. An adjustment with \<open>quantityChange = 0\<close> is not rejected by the reducer
  and raises no error (the zero check is in the calling form,
  \<^verbatim>\<open>AdjustStockModal.handleAdjust\<close>): in every reachable state the dispatch returns a state
  whose inventory is the inventory it was given, so no ledger entry is created or
  modified. (The claim has the operation rejected with \<open>InvalidOperationError\<close> and no
  log entry added.)
\<close>

theorem zero_adjustment_keeps_inventory:
  assumes "reachable s"
  shows "\<exists>s'. dispatch env s (ADJUST_STOCK p w 0 t d) = Inr s' \<and> inventory s' = inventory s"
  unfolding dispatch_def
  using adjust_zero_inventory [OF reachable_nonneg [OF assms], of env p w t d] by blast

theorem zero_adjustment_keeps_inventory_witness:
  "\<exists>s'. dispatch sampleEnv sampleState (ADJUST_STOCK ''p1'' ''w1'' 0 AJUSTE ''conteo'') = Inr s'
     \<and> inventory s' = inventory sampleState"
  using reachable_sampleState by (rule zero_adjustment_keeps_inventory)

text \<open>
  The claim as stated fails at an adjustment of \<open>p1\<close> at \<open>w1\<close> by 0: the outcome is
  not \<open>InvalidOperationError\<close>, and a log entry with \<open>quantityChange = 0\<close> is added.
\<close>

theorem zero_adjustment_counterexample:
  "dispatch sampleEnv sampleState (ADJUST_STOCK ''p1'' ''w1'' 0 AJUSTE ''conteo'')
     \<noteq> Inl InvalidOperationError \<and>
   length (logs (reducer sampleEnv sampleState (ADJUST_STOCK ''p1'' ''w1'' 0 AJUSTE ''conteo'')))
     = length (logs sampleState) + 1 \<and>
   quantityChange (hd (logs
     (reducer sampleEnv sampleState (ADJUST_STOCK ''p1'' ''w1'' 0 AJUSTE ''conteo'')))) = 0"
  using adjust_effect(1) [OF sample_p1 sample_w1, of sampleEnv 0 AJUSTE "''conteo''"]
  by (auto simp add: dispatch_def simp del: reducer.simps)

subsection \<open>The logged-in user\<close>

text \<open>
  C10, as amended. \<^verbatim>\<open>DELETE_USER\<close> with the id of the logged-in user returns the state
  unchanged, and in every reachable state some member of \<open>users\<close> carries the id of
  \<open>currentUser\<close>. (The claim has \<open>currentUser\<close> itself a member of \<open>users\<close>; after
  \<^verbatim>\<open>UPDATE_USER\<close> on the logged-in user, \<open>users\<close> holds the updated record and
  \<open>currentUser\<close> still the old one.)
\<close>

theorem current_user_id_stays_in_users:
  "reducer env s (DELETE_USER (id_u (currentUser s))) = s \<and>
   (reachable s \<longrightarrow> (\<exists>u \<in> set (users s). id_u u = id_u (currentUser s)))"
  using reachable_current_id [of s] by simp

theorem current_user_id_stays_in_users_witness:
  "reducer sampleEnv sampleState (DELETE_USER ''u1'') = sampleState \<and>
   (\<exists>u \<in> set (users sampleState). id_u u = ''u1'')"
  using current_user_id_stays_in_users [of sampleEnv sampleState] reachable_sampleState
  by (simp add: sample_current del: reducer.simps)

text \<open>
  The claim as stated fails after the logged-in user's name is edited: the state is
  reachable and \<open>currentUser\<close> is not a member of \<open>users\<close>.
\<close>

theorem current_user_member_counterexample:
  "reachable (reducer sampleEnv sampleState
      (UPDATE_USER ((mockUsers ! 0)\<lparr>name_u := ''Administrador''\<rparr>) [])) \<and>
   currentUser (reducer sampleEnv sampleState
      (UPDATE_USER ((mockUsers ! 0)\<lparr>name_u := ''Administrador''\<rparr>) []))
   \<notin> set (users (reducer sampleEnv sampleState
      (UPDATE_USER ((mockUsers ! 0)\<lparr>name_u := ''Administrador''\<rparr>) [])))"
proof -
  have "reachable (reducer sampleEnv sampleState
      (UPDATE_USER ((mockUsers ! 0)\<lparr>name_u := ''Administrador''\<rparr>) []))"
    by (rule reachable.step [OF reachable_sampleState])
  then show ?thesis
    by (simp add: sampleState_def initialState_def mockUsers_def Let_def)
qed

end
